theory Spec2Isabelle
  imports Main
begin

section \<open>Run-time types and values, as package reflect shows them to c.go\<close>

text \<open>
  c.go classifies constructors by reflection. Of a \<open>reflect.Type\<close> it reads the kind,
  the input and output types of a function type, whether the function is variadic, and
  whether the type implements the interfaces \<open>di.Module\<close> and \<open>error\<close>
  (\<open>v.Implements(_moduleType)\<close>, \<open>v.Implements(_errType)\<close>). The declaration of
  \<open>di.Module\<close> is not among the sources at hand, so the two \<open>Implements\<close> answers are
  fields of the type descriptor. So is, for a slice type \<open>t\<close>, the answer of
  \<open>t.AssignableTo(t.Elem())\<close>, which \<open>reflect.Value.Call\<close> asks of the variadic slice it
  is handed as an argument (it holds of \<open>[]interface{}\<close>, not of \<open>[]Option\<close>).
\<close>

datatype kind = Func | Struct | Interface | Ptr | Slice | Other

datatype rtype = RType
  (tname: string)
  (Kind: kind)
  (ins: "rtype list")
  (outs: "rtype list")
  (IsVariadic: bool)
  (implementsModule: bool)
  (implementsErr: bool)
  (AssignableToElem: bool)

definition NumIn :: "rtype \<Rightarrow> nat" where
  "NumIn v = length (ins v)"

definition NumOut :: "rtype \<Rightarrow> nat" where
  "NumOut v = length (outs v)"

text \<open>\<open>isCleanup\<close>, \<open>isErr\<close> and \<open>isModule\<close> of c.go.\<close>

definition isCleanup :: "rtype \<Rightarrow> bool" where
  "isCleanup v = (if Kind v = Func \<and> NumIn v = 0 \<and> NumOut v = 0 then True else False)"

definition isErr :: "rtype \<Rightarrow> bool" where
  "isErr v = implementsErr v"

definition isModule :: "rtype \<Rightarrow> bool" where
  "isModule v = implementsModule v"

text \<open>
  An \<open>interface{}\<close> value is nil or carries its dynamic type and its content (an opaque
  identity here). A \<open>reflect.Value\<close> has the static type \<open>v.Type()\<close> and the value
  \<open>v.Interface()\<close>.
\<close>

datatype iface = Nil | Dyn (dynType: rtype) (content: nat)

record rvalue =
  v_Type :: rtype
  v_Interface :: iface

text \<open>The type switch \<open>case error\<close>: the dynamic type implements \<open>error\<close>; nil does not.\<close>

fun is_error :: "iface \<Rightarrow> bool" where
  "is_error Nil = False"
| "is_error (Dyn t x) = implementsErr t"

section \<open>The core \<open>C\<close>\<close>

text \<open>
  Of the struct \<open>C\<close> the functions below use the embedded \<open>contract.Container\<close> (the
  module collection) and the field \<open>di\<close> (the resolver, of a type \<open>'d\<close> left open: it
  wraps an external library).
\<close>

record 'd C =
  Container :: "iface list"
  di :: 'd

text \<open>
  Modelled from the spec: \<open>Container.AddModule\<close> of package container, which is not part
  of the sources at hand. It "appends it to an ordered collection; order is registration
  order".
\<close>

definition Container_AddModule :: "iface \<Rightarrow> iface list \<Rightarrow> iface list" where
  "Container_AddModule m ms = ms @ [m]"

text \<open>
  \<open>C.AddModule(modules ...interface{})\<close>: the loop over the arguments. A panic leaves
  the collection as it is at that moment; the result is the panic value, if any, and the
  core.
\<close>

fun AddModule :: "iface list \<Rightarrow> 'd C \<Rightarrow> iface option \<times> 'd C" where
  "AddModule [] c = (None, c)"
| "AddModule (m # ms) c =
     (if is_error m then (Some m, c)
      else AddModule ms (c\<lparr>Container := Container_AddModule m (Container c)\<rparr>))"

section \<open>Provide: constructors and the interceptor\<close>

text \<open>
  The argument of \<open>provide\<close> is an \<open>interface{}\<close>: \<open>reflect.TypeOf\<close> gives its dynamic
  type (nil for an untyped nil), and \<open>reflect.ValueOf(constructor).Call(args)\<close> runs
  it, returning one value per declared output.
\<close>

record constructor =
  TypeOf :: "rtype option"
  Call :: "rvalue list \<Rightarrow> rvalue list"

text \<open>
  What \<open>provide\<close> hands to \<open>c.di.Provide\<close>: the constructor itself, or
  \<open>reflect.MakeFunc(fnType, ...)\<close> whose body is the closure \<open>interceptor\<close> below.
\<close>

datatype provided = Unchanged constructor | MakeFunc rtype constructor

text \<open>
  The panics of \<open>provide\<close>: "can't provide an untyped nil", "must provide constructor
  function, got ... (type ...)", and the error of \<open>c.di.Provide\<close>.
\<close>

datatype 'e provide_panic = UntypedNilPanic | MustProvideFunction rtype | ProvideError 'e

text \<open>\<open>reflect.FuncOf\<close>: an unnamed function type, which has no methods.\<close>

definition FuncOf :: "rtype list \<Rightarrow> rtype list \<Rightarrow> bool \<Rightarrow> rtype" where
  "FuncOf inTypes outTypes variadic =
     RType [] Func inTypes outTypes variadic False False False"

text \<open>The loop over \<open>ftype.Out(i)\<close>, with \<open>shouldMakeFunc\<close> and \<open>outTypes\<close> as state.\<close>

fun scanOuts :: "rtype list \<Rightarrow> bool \<Rightarrow> rtype list \<Rightarrow> bool \<times> rtype list" where
  "scanOuts [] shouldMakeFunc outTypes = (shouldMakeFunc, outTypes)"
| "scanOuts (outT # rest) shouldMakeFunc outTypes =
     (if isCleanup outT then scanOuts rest True outTypes
      else if isModule outT then scanOuts rest True (outTypes @ [outT])
      else scanOuts rest shouldMakeFunc (outTypes @ [outT]))"

text \<open>The loop over \<open>ftype.In(i)\<close>.\<close>

fun scanIns :: "rtype list \<Rightarrow> bool \<Rightarrow> rtype list \<Rightarrow> bool \<times> rtype list" where
  "scanIns [] shouldMakeFunc inTypes = (shouldMakeFunc, inTypes)"
| "scanIns (inT # rest) shouldMakeFunc inTypes =
     (if isModule inT then scanIns rest True (inTypes @ [inT])
      else scanIns rest shouldMakeFunc (inTypes @ [inT]))"

text \<open>
  The panics of the function made by \<open>reflect.MakeFunc\<close>: \<open>c.AddModule\<close> with a value
  that is an error, and those of \<open>reflect.Value.Call\<close> ("reflect: cannot use ... as type
  ... in Call", and the call on the zero \<open>Value\<close> of an untyped nil).
\<close>

datatype call_panic = ModuleIsError iface | CannotUseInCall rtype | CallOnZeroValue

text \<open>
  \<open>reflect.ValueOf(constructor).Call(args)\<close> in the body given to \<open>reflect.MakeFunc\<close>.
  The body receives one value per input of \<open>fnType\<close>, and these are the inputs of the
  constructor, so the number of arguments and the types of the fixed ones fit. For a
  variadic constructor the last of them is the slice of the variadic arguments; \<open>Call\<close>
  (unlike \<open>CallSlice\<close>) takes every argument from the variadic position on as one
  element of the slice it builds, and panics unless the argument's type is assignable
  to the element type. Otherwise the constructor runs.
\<close>

definition Value_Call :: "constructor \<Rightarrow> rvalue list \<Rightarrow> call_panic + rvalue list" where
  "Value_Call k args =
     (case TypeOf k of
        None \<Rightarrow> Inl CallOnZeroValue
      | Some ftype \<Rightarrow>
          if IsVariadic ftype then
            (case find (\<lambda>x. \<not> AssignableToElem (v_Type x)) (drop (NumIn ftype - 1) args) of
               Some x \<Rightarrow> Inl (CannotUseInCall (v_Type x))
             | None \<Rightarrow> Inr (Call k args))
          else Inr (Call k args))"

text \<open>
  The body given to \<open>reflect.MakeFunc\<close>: the call, then the loop over \<open>outVs\<close> with
  \<open>filteredOuts\<close> as state. A panic leaves the body at once (\<open>Inl\<close>).
\<close>

fun filterOuts :: "rvalue list \<Rightarrow> 'd C \<Rightarrow> rvalue list \<Rightarrow> (call_panic + rvalue list) \<times> 'd C" where
  "filterOuts [] c filteredOuts = (Inr filteredOuts, c)"
| "filterOuts (v # outVs) c filteredOuts =
     (let vType = v_Type v in
      if isCleanup vType then
        (case AddModule [v_Interface v] c of
           (Some p, c') \<Rightarrow> (Inl (ModuleIsError p), c')
         | (None, c') \<Rightarrow> filterOuts outVs c' filteredOuts)
      else if isModule vType then
        (case AddModule [v_Interface v] c of
           (Some p, c') \<Rightarrow> (Inl (ModuleIsError p), c')
         | (None, c') \<Rightarrow> filterOuts outVs c' (filteredOuts @ [v]))
      else filterOuts outVs c (filteredOuts @ [v]))"

definition interceptor :: "constructor \<Rightarrow> rvalue list \<Rightarrow> 'd C
    \<Rightarrow> (call_panic + rvalue list) \<times> 'd C" where
  "interceptor k args c =
     (case Value_Call k args of
        Inl p \<Rightarrow> (Inl p, c)
      | Inr outVs \<Rightarrow> filterOuts outVs c [])"

text \<open>
  Invoking what was provided, as the resolver does: the constructor itself, or the
  interceptor.
\<close>

fun call_provided :: "provided \<Rightarrow> rvalue list \<Rightarrow> 'd C
    \<Rightarrow> (call_panic + rvalue list) \<times> 'd C" where
  "call_provided (Unchanged k) args c = (Inr (Call k args), c)"
| "call_provided (MakeFunc fnType k) args c = interceptor k args c"

text \<open>
  \<open>c.provide(constructor)\<close>. The resolver's \<open>Provide\<close> is a parameter: it takes what is
  provided and the resolver's state and returns an error, if any, and the new state.
\<close>

definition diProvide :: "(provided \<Rightarrow> 'd \<Rightarrow> 'e option \<times> 'd) \<Rightarrow> provided \<Rightarrow> 'd C
    \<Rightarrow> 'e provide_panic option \<times> 'd C" where
  "diProvide Provide f c =
     (case Provide f (di c) of
        (Some err, d') \<Rightarrow> (Some (ProvideError err), c\<lparr>di := d'\<rparr>)
      | (None, d') \<Rightarrow> (None, c\<lparr>di := d'\<rparr>))"

definition provide :: "(provided \<Rightarrow> 'd \<Rightarrow> 'e option \<times> 'd) \<Rightarrow> constructor \<Rightarrow> 'd C
    \<Rightarrow> 'e provide_panic option \<times> 'd C" where
  "provide Provide k c =
     (case TypeOf k of
        None \<Rightarrow> (Some UntypedNilPanic, c)
      | Some ftype \<Rightarrow>
          if Kind ftype \<noteq> Func then (Some (MustProvideFunction ftype), c)
          else
            (case scanOuts (outs ftype) False [] of (s1, outTypes) \<Rightarrow>
             case scanIns (ins ftype) s1 [] of (shouldMakeFunc, inTypes) \<Rightarrow>
               if \<not> shouldMakeFunc then diProvide Provide (Unchanged k) c
               else diProvide Provide (MakeFunc (FuncOf inTypes outTypes (IsVariadic ftype)) k) c))"

section \<open>Invoke and the error message it rewrites\<close>

text \<open>
  Error values: \<open>errors.New(s)\<close>, \<open>fmt.Errorf\<close> with \<open>%w\<close> (its message and the error it
  wraps), and any other implementation of \<open>error\<close>, known by its dynamic type's name and
  its message. \<open>Error\<close> is the method \<open>Error()\<close>.
\<close>

datatype error = ErrorsNew string | Errorf string error | OtherError string string

fun Error :: "error \<Rightarrow> string" where
  "Error (ErrorsNew s) = s"
| "Error (Errorf s cause) = s"
| "Error (OtherError typ s) = s"

text \<open>\<open>strings.HasPrefix\<close> and \<open>strings.Contains\<close> (the latter is what the test uses).\<close>

definition HasPrefix :: "string \<Rightarrow> string \<Rightarrow> bool" where
  "HasPrefix s pre = (take (length pre) s = pre)"

fun Contains :: "string \<Rightarrow> string \<Rightarrow> bool" where
  "Contains [] substr = (substr = [])"
| "Contains (c # cs) substr = (HasPrefix (c # cs) substr \<or> Contains cs substr)"

text \<open>
  The regular expression of \<open>Invoke\<close> is
  \<^verbatim>\<open> missing dependencies for function "reflect"\.makeFuncStub \(.+?\):\<close>
  that is: a literal text, then \<open>.+?\<close> (one or more characters other than newline, as few
  as possible), then the literal \<open>):\<close>.
\<close>

definition stubName :: string where
  "stubName = [CHR 0x22] @ ''reflect'' @ [CHR 0x22] @ ''.makeFuncStub''"

definition stubPrefix :: string where
  "stubPrefix = '' missing dependencies for function '' @ stubName @ '' (''"

text \<open>
  \<open>lazyDotPlus s\<close> matches \<open>.+?\):\<close> at the head of \<open>s\<close> and gives what follows the
  match: it takes one character, which must not be a newline, and stops as soon as \<open>):\<close>
  comes next.
\<close>

fun lazyDotPlus :: "string \<Rightarrow> string option" where
  "lazyDotPlus [] = None"
| "lazyDotPlus (c # cs) =
     (if c = CHR 0x0A then None
      else if HasPrefix cs ''):'' then Some (drop 2 cs)
      else lazyDotPlus cs)"

text \<open>The whole expression matched at the head of \<open>s\<close>; the result is what follows the match.\<close>

definition matchAt :: "string \<Rightarrow> string option" where
  "matchAt s =
     (if HasPrefix s stubPrefix then lazyDotPlus (drop (length stubPrefix) s) else None)"

text \<open>
  \<open>re.ReplaceAllString(s, "")\<close>: the leftmost match is removed and the search goes on
  behind it; where no match starts, the character is kept.
\<close>

function ReplaceAllString :: "string \<Rightarrow> string" where
  "ReplaceAllString [] = []"
| "ReplaceAllString (c # cs) =
     (case matchAt (c # cs) of
        Some rest \<Rightarrow> ReplaceAllString rest
      | None \<Rightarrow> c # ReplaceAllString cs)"
  by pat_completeness auto
termination
proof (relation "measure length")
  show "wf (measure length)" by simp
next
  fix c :: char and cs rest :: string
  assume m: "matchAt (c # cs) = Some rest"
  have shorter: "lazyDotPlus s = Some r \<Longrightarrow> length r < length s" for s r
    by (induction s) (auto split: if_splits)
  from m obtain t where "lazyDotPlus t = Some rest" and "length t \<le> length (c # cs)"
    by (auto simp: matchAt_def split: if_splits)
  with shorter [of t rest] show "(rest, c # cs) \<in> measure length" by simp
next
  fix c :: char and cs :: string
  show "(cs, c # cs) \<in> measure length" by simp
qed

text \<open>
  \<open>C.Invoke(function)\<close> has no result. The resolver's \<open>Invoke\<close> is a parameter: it
  builds the arguments, calls the function (changing the core as the interceptors do)
  and returns an error or nil.
\<close>

datatype invoked = Returned | Panicked error

definition Invoke :: "('f \<Rightarrow> 'd C \<Rightarrow> error option \<times> 'd C) \<Rightarrow> 'f \<Rightarrow> 'd C \<Rightarrow> invoked \<times> 'd C" where
  "Invoke diInvoke function c =
     (case diInvoke function c of
        (None, c') \<Rightarrow> (Returned, c')
      | (Some err, c') \<Rightarrow> (Panicked (ErrorsNew (ReplaceAllString (Error err))), c'))"

section \<open>SyncDispatcher\<close>

text \<open>
  A \<open>contract.Listener\<close> has \<open>Listen()\<close>, its topic, and \<open>Process(ctx, event)\<close>, which
  may change the world (of a type \<open>'s\<close>) and returns an error or nil. The registry is a
  Go map from topics to slices of listeners; a nil map has no key.
\<close>

record ('t, 'ev, 's) Listener =
  Listen :: 't
  Process :: "'ev \<Rightarrow> 's \<Rightarrow> error option \<times> 's"

type_synonym ('t, 'ev, 's) registry = "'t \<rightharpoonup> ('t, 'ev, 's) Listener list"

definition Subscribe :: "('t, 'ev, 's) Listener \<Rightarrow> ('t, 'ev, 's) registry \<Rightarrow> ('t, 'ev, 's) registry" where
  "Subscribe listener registry =
     registry(Listen listener \<mapsto>
       (case registry (Listen listener) of None \<Rightarrow> [] | Some ls \<Rightarrow> ls) @ [listener])"

text \<open>
  The loop of \<open>Dispatch\<close>. Besides the error and the world it returns the calls of
  \<open>Process\<close> it made, in order, each with what it returned: the record of who was
  invoked.
\<close>

fun processAll :: "('t, 'ev, 's) Listener list \<Rightarrow> 'ev \<Rightarrow> 's
    \<Rightarrow> error option \<times> 's \<times> (('t, 'ev, 's) Listener \<times> error option) list" where
  "processAll [] event s = (None, s, [])"
| "processAll (listener # listeners) event s =
     (case Process listener event s of
        (Some err, s') \<Rightarrow> (Some err, s', [(listener, Some err)])
      | (None, s') \<Rightarrow>
          (case processAll listeners event s' of
             (r, s'', calls) \<Rightarrow> (r, s'', (listener, None) # calls)))"

definition Dispatch :: "('t, 'ev, 's) registry \<Rightarrow> 't \<Rightarrow> 'ev \<Rightarrow> 's
    \<Rightarrow> error option \<times> 's \<times> (('t, 'ev, 's) Listener \<times> error option) list" where
  "Dispatch registry topic event s =
     (case registry topic of
        None \<Rightarrow> (None, s, [])
      | Some listeners \<Rightarrow> processAll listeners event s)"

section \<open>The resource factory\<close>

text \<open>
  A builder returns a pair and a nil error, or an error; it can also panic, which in Go
  leaves every caller up to a \<open>recover\<close>.
\<close>

datatype 'a result = Ok 'a | Err error | Panic string

text \<open>
  The factory's state: the entries cached by name, and, to count the builder's
  invocations, the names the builder was called with so far.
\<close>

record 'p Factory =
  cache :: "string \<rightharpoonup> 'p"
  built :: "string list"

text \<open>
  Modelled from the spec: \<open>di.NewFactory\<close> and \<open>Factory.Make\<close> of package di, which is
  not part of the sources at hand. \<open>Make(name)\<close> "returns the cached instance for name if
  present; otherwise invokes the supplied builder function with name, caches the result
  (instance + its teardown closure) on success, and returns it. Construction failures
  are not cached; the next call retries from scratch." The builder is an argument of
  each call, since the configuration it reads may have changed in between.
\<close>

definition NewFactory :: "'p Factory" where
  "NewFactory = \<lparr>cache = Map.empty, built = []\<rparr>"

definition Make :: "(string \<Rightarrow> 'p result) \<Rightarrow> string \<Rightarrow> 'p Factory \<Rightarrow> 'p result \<times> 'p Factory" where
  "Make builder name f =
     (case cache f name of
        Some p \<Rightarrow> (Ok p, f)
      | None \<Rightarrow>
          (case builder name of
             Ok p \<Rightarrow> (Ok p, f\<lparr>cache := (cache f)(name \<mapsto> p), built := built f @ [name]\<rparr>)
           | Err e \<Rightarrow> (Err e, f\<lparr>built := built f @ [name]\<rparr>)
           | Panic m \<Rightarrow> (Panic m, f\<lparr>built := built f @ [name]\<rparr>)))"

text \<open>A run of \<open>Make\<close> calls, each with its builder and its name.\<close>

fun Makes :: "((string \<Rightarrow> 'p result) \<times> string) list \<Rightarrow> 'p Factory \<Rightarrow> 'p Factory" where
  "Makes [] f = f"
| "Makes ((builder, name) # calls) f = Makes calls (snd (Make builder name f))"

section \<open>The Kafka providers (otkafka/dependency.go)\<close>

text \<open>
  Of \<open>ReaderConfig\<close> and \<open>WriterConfig\<close> the sources show the field \<open>Brokers\<close>. A
  connection (\<open>*kafka.Reader\<close>, \<open>*kafka.Writer\<close>) is known here by the configuration it
  was made from, after the interceptor; the loggers and the transport the builders set
  on it do not bear on what follows.
\<close>

record ReaderConfig =
  readerBrokers :: "string list"

record WriterConfig =
  writerBrokers :: "string list"

datatype conn = Reader ReaderConfig | Writer WriterConfig

text \<open>\<open>di.Pair\<close>: the connection, and the closer, known by the connection it closes.\<close>

record Pair =
  Conn :: conn
  Closer :: conn

text \<open>
  \<open>contract.ConfigAccessor\<close> is an interface, and its implementations are not part of
  the sources at hand: it is taken as it is given, a record of its method
  \<open>Unmarshal(path, &target)\<close>, one function per type of target the providers read. The
  result is the error, or the value the target holds afterwards. Whether an absent
  path is an error is the accessor's to decide.
\<close>

record ConfigAccessor =
  UnmarshalReader :: "string \<Rightarrow> error + ReaderConfig"
  UnmarshalWriter :: "string \<Rightarrow> error + WriterConfig"
  UnmarshalDuration :: "string \<Rightarrow> error + int"

text \<open>
  \<open>factoryIn\<close>: the optional interceptors (nil is \<open>None\<close>), the configuration and the
  optional statistics. The logger is written to; its output is a result of the
  functions below.
\<close>

record factoryIn =
  ReaderInterceptor :: "(string \<Rightarrow> ReaderConfig \<Rightarrow> ReaderConfig) option"
  WriterInterceptor :: "(string \<Rightarrow> WriterConfig \<Rightarrow> WriterConfig) option"
  Conf :: ConfigAccessor
  ReaderStats :: "nat option"
  WriterStats :: "nat option"

definition nilCall :: string where
  "nilCall = ''runtime error: invalid memory address or nil pointer dereference''"

text \<open>
  The builder of \<open>provideReaderFactory\<close>. It tests \<open>p.WriterInterceptor != nil\<close> and then
  calls \<open>p.ReaderInterceptor\<close>; calling a nil function panics.
\<close>

definition readerBuilder :: "factoryIn \<Rightarrow> string \<Rightarrow> Pair result" where
  "readerBuilder p name =
     (case UnmarshalReader (Conf p) (''kafka.reader.'' @ name) of
        Inl err \<Rightarrow>
          Err (Errorf (''kafka reader configuration '' @ name @ '' not valid: '' @ Error err) err)
      | Inr readerConfig \<Rightarrow>
          (case WriterInterceptor p of
             None \<Rightarrow> Ok \<lparr>Conn = Reader readerConfig, Closer = Reader readerConfig\<rparr>
           | Some w \<Rightarrow>
               (case ReaderInterceptor p of
                  None \<Rightarrow> Panic nilCall
                | Some f \<Rightarrow>
                    Ok \<lparr>Conn = Reader (f name readerConfig),
                        Closer = Reader (f name readerConfig)\<rparr>)))"

text \<open>The builder of \<open>provideWriterFactory\<close>.\<close>

definition writerBuilder :: "factoryIn \<Rightarrow> string \<Rightarrow> Pair result" where
  "writerBuilder p name =
     (case UnmarshalWriter (Conf p) (''kafka.writer.'' @ name) of
        Inl err \<Rightarrow>
          Err (Errorf (''kafka writer configuration '' @ name @ '' not valid: '' @ Error err) err)
      | Inr writerConfig \<Rightarrow>
          (case WriterInterceptor p of
             None \<Rightarrow> Ok \<lparr>Conn = Writer writerConfig, Closer = Writer writerConfig\<rparr>
           | Some f \<Rightarrow>
               Ok \<lparr>Conn = Writer (f name writerConfig),
                   Closer = Writer (f name writerConfig)\<rparr>))"

text \<open>
  \<open>provideReaderFactory\<close> and \<open>provideWriterFactory\<close> return the new factory and its
  \<open>Close\<close> as cleanup; the builder lives in the factory, and here goes with each
  \<open>Make\<close>.
\<close>

datatype cleanup = CloseReaderFactory | CloseWriterFactory

definition provideReaderFactory :: "factoryIn \<Rightarrow> Pair Factory \<times> cleanup" where
  "provideReaderFactory p = (NewFactory, CloseReaderFactory)"

definition provideWriterFactory :: "factoryIn \<Rightarrow> Pair Factory \<times> cleanup" where
  "provideWriterFactory p = (NewFactory, CloseWriterFactory)"

text \<open>
  Modelled from the spec: \<open>ReaderFactory.Make\<close> and \<open>WriterFactory.Make\<close>, the typed
  wrappers of \<open>Factory.Make\<close> ("Make(name string) (T, error)"), which are not part of the
  sources at hand: the connection of the pair, or nil (\<open>None\<close>) with the error.
\<close>

definition MakeConn :: "(string \<Rightarrow> Pair result) \<Rightarrow> string \<Rightarrow> Pair Factory
    \<Rightarrow> (string + conn option \<times> error option) \<times> Pair Factory" where
  "MakeConn builder name f =
     (case Make builder name f of
        (Ok p, f') \<Rightarrow> (Inr (Some (Conn p), None), f')
      | (Err e, f') \<Rightarrow> (Inr (None, Some e), f')
      | (Panic m, f') \<Rightarrow> (Inl m, f'))"

datatype logEntry = Warn error

record factoryOut =
  ReaderFactory :: "Pair Factory"
  WriterFactory :: "Pair Factory"
  DefaultReader :: "conn option"
  DefaultWriter :: "conn option"
  ReaderCollector :: "(nat \<times> int) option"
  WriterCollector :: "(nat \<times> int) option"

text \<open>
  \<open>provideKafkaFactory\<close>. The result is a panic (\<open>Inl\<close>), or the four values it returns
  together with what it wrote to the logger. (\<open>ReaderMaker\<close> and \<open>WriterMaker\<close> are the factories
  again.)
\<close>

definition collectors :: "factoryIn \<Rightarrow> (nat \<times> int) option \<times> (nat \<times> int) option" where
  "collectors p =
     (if ReaderStats p \<noteq> None \<or> WriterStats p \<noteq> None then
        (let interval = (case UnmarshalDuration (Conf p) ''kafkaMetrics.interval'' of
                           Inl err \<Rightarrow> 0 | Inr d \<Rightarrow> d)
         in (case ReaderStats p of None \<Rightarrow> None | Some st \<Rightarrow> Some (st, interval),
             case WriterStats p of None \<Rightarrow> None | Some st \<Rightarrow> Some (st, interval)))
      else (None, None))"

definition warn :: "error option \<Rightarrow> logEntry list" where
  "warn err = (case err of Some e \<Rightarrow> [Warn e] | None \<Rightarrow> [])"

definition provideKafkaFactory :: "factoryIn
    \<Rightarrow> string + (factoryOut \<times> cleanup \<times> cleanup \<times> error option) \<times> logEntry list" where
  "provideKafkaFactory p =
     (let (readerFactory, rc) = provideReaderFactory p;
          (writerFactory, wc) = provideWriterFactory p
      in case MakeConn (readerBuilder p) ''default'' readerFactory of
           (Inl m, readerFactory') \<Rightarrow> Inl m
         | (Inr (dr, err1), readerFactory') \<Rightarrow>
             (case MakeConn (writerBuilder p) ''default'' writerFactory of
                (Inl m, writerFactory') \<Rightarrow> Inl m
              | (Inr (dw, err2), writerFactory') \<Rightarrow>
                  (let (readerCollector, writerCollector) = collectors p
                   in Inr ((\<lparr>ReaderFactory = readerFactory', WriterFactory = writerFactory',
                              DefaultReader = dr, DefaultWriter = dw,
                              ReaderCollector = readerCollector,
                              WriterCollector = writerCollector\<rparr>,
                            wc, rc, None),
                           warn err1 @ warn err2))))"

section \<open>Serve\<close>

text \<open>
  \<open>C.Serve\<close> in c.go resolves \<open>serveIn\<close> and executes the serve command on it; the command
  (\<open>newServeCmd\<close>) is not part of the sources at hand.

  Modelled from the spec: the serve command. "For each registered module, start its
  run(ctx) ...; before each module's run begins, publish a ModuleStart event carrying
  module identity; after run returns (success or error), publish a ModuleShutdown event.
  ... The first error from any module ... is the one returned to the caller ... A module
  flagged disabled by configuration is skipped entirely." The modules run one after
  the other here, in registration order; which events are published, and for whom,
  does not depend on how the runs interleave. A module names the configuration key that
  disables it (\<open>http.disable\<close>, \<open>grpc.disable\<close>); \<open>disable\<close> reads a boolean of the
  configuration.
\<close>

datatype lifecycle = ModuleStart | ModuleShutdown

record 's Module =
  identity :: string
  disableKey :: string
  run :: "'s \<Rightarrow> error option \<times> 's"

text \<open>
  The result: the error returned, the world, the events published in order (topic and
  payload), and the calls of listeners' \<open>Process\<close> the dispatcher made.
\<close>

fun Serve :: "(string \<Rightarrow> bool) \<Rightarrow> (lifecycle, string, 's) registry \<Rightarrow> 's Module list \<Rightarrow> 's
    \<Rightarrow> error option \<times> 's \<times> (lifecycle \<times> string) list
        \<times> ((lifecycle, string, 's) Listener \<times> error option) list" where
  "Serve disable registry [] s = (None, s, [], [])"
| "Serve disable registry (m # ms) s =
     (if disable (disableKey m) then Serve disable registry ms s
      else
        (case Dispatch registry ModuleStart (identity m) s of (e1, s1, calls1) \<Rightarrow>
         case run m s1 of (r, s2) \<Rightarrow>
         case Dispatch registry ModuleShutdown (identity m) s2 of (e2, s3, calls2) \<Rightarrow>
         case Serve disable registry ms s3 of (r', s4, published, calls) \<Rightarrow>
           (case r of Some e \<Rightarrow> Some e | None \<Rightarrow> r', s4,
            (ModuleStart, identity m) # (ModuleShutdown, identity m) # published,
            calls1 @ calls2 @ calls)))"

section \<open>Examples\<close>

text \<open>
  The types of the tests and examples: \<open>Foo\<close> (a struct), \<open>func()\<close>, \<open>m1\<close> (a struct with
  the method \<open>ModuleSentinel\<close>, so a \<open>di.Module\<close>), and values of them.
\<close>

definition FooT :: rtype where
  "FooT = RType ''Foo'' Struct [] [] False False False False"

definition CleanupT :: rtype where
  "CleanupT = FuncOf [] [] False"

definition M1T :: rtype where
  "M1T = RType ''m1'' Struct [] [] False True False False"

definition fooV :: rvalue where
  "fooV = \<lparr>v_Type = FooT, v_Interface = Dyn FooT 1\<rparr>"

definition cleanupV :: rvalue where
  "cleanupV = \<lparr>v_Type = CleanupT, v_Interface = Dyn CleanupT 2\<rparr>"

definition m1V :: rvalue where
  "m1V = \<lparr>v_Type = M1T, v_Interface = Dyn M1T 3\<rparr>"

text \<open>\<open>func() (Foo, func(), m1)\<close> and \<open>func(m m1) Foo\<close>.\<close>

definition fooCleanupModule :: constructor where
  "fooCleanupModule =
     \<lparr>TypeOf = Some (FuncOf [] [FooT, CleanupT, M1T] False),
      Call = (\<lambda>args. [fooV, cleanupV, m1V])\<rparr>"

definition fooFromModule :: constructor where
  "fooFromModule =
     \<lparr>TypeOf = Some (FuncOf [M1T] [FooT] False), Call = (\<lambda>args. [fooV])\<rparr>"

text \<open>A resolver that accepts whatever is provided and keeps it, and a fresh core on it.\<close>

definition keepProvided :: "provided \<Rightarrow> provided list \<Rightarrow> error option \<times> provided list" where
  "keepProvided f d = (None, d @ [f])"

definition emptyC :: "provided list C" where
  "emptyC = \<lparr>Container = [], di = []\<rparr>"

text \<open>
  A resolver's \<open>Invoke\<close> on a function without parameters: it calls the function and
  returns its error result. And one that fails to build the arguments, with a message.
\<close>

definition callTarget :: "error option \<Rightarrow> provided list C \<Rightarrow> error option \<times> provided list C" where
  "callTarget function c = (function, c)"

definition failWith :: "string \<Rightarrow> unit \<Rightarrow> provided list C \<Rightarrow> error option \<times> provided list C" where
  "failWith msg function c = (Some (OtherError ''dig.errArgumentsFailed'' msg), c)"

text \<open>
  The message of the resolver when \<open>func(a a) error\<close> is invoked, \<open>a\<close> comes from a
  wrapped constructor \<open>func(b) (a, func(), error)\<close>, and \<open>b\<close> has no constructor (the
  test \<open>TestNew_missingDependencyErrorMessage\<close>); and the message when \<open>b\<close> comes from a
  second wrapped constructor \<open>func(c) (b, func())\<close> and \<open>c\<close> has no constructor.
\<close>

definition targetLocation :: string where
  "targetLocation = [CHR 0x22] @ ''core'' @ [CHR 0x22] @ ''.func2 (/core/c_test.go:222)''"

definition stubLocation :: string where
  "stubLocation = stubName @ '' (/usr/local/go/src/reflect/asm_amd64.s:28)''"

definition oneLevelMessage :: string where
  "oneLevelMessage =
     ''could not build arguments for function '' @ targetLocation @ '': ''
     @ ''failed to build core.a: missing dependencies for function '' @ stubLocation
     @ '': missing type: core.b''"

definition twoLevelMessage :: string where
  "twoLevelMessage =
     ''could not build arguments for function '' @ targetLocation @ '': ''
     @ ''failed to build core.a: could not build arguments for function '' @ stubLocation
     @ '': failed to build core.b: missing dependencies for function '' @ stubLocation
     @ '': missing type: core.c''"

text \<open>\<open>func() Foo\<close>, and an error value of a type of the application's own.\<close>

definition fooOnly :: constructor where
  "fooOnly = \<lparr>TypeOf = Some (FuncOf [] [FooT] False), Call = (\<lambda>args. [fooV])\<rparr>"

definition boom :: error where
  "boom = OtherError ''core.myErr'' ''boom''"

text \<open>
  Listeners on a world that counts the calls of \<open>Process\<close>: one that succeeds and one
  that fails, for a topic.
\<close>

definition counting :: "'t \<Rightarrow> ('t, string, nat) Listener" where
  "counting topic = \<lparr>Listen = topic, Process = (\<lambda>event n. (None, Suc n))\<rparr>"

definition failing :: "'t \<Rightarrow> ('t, string, nat) Listener" where
  "failing topic = \<lparr>Listen = topic, Process = (\<lambda>event n. (Some boom, Suc n))\<rparr>"

text \<open>
  \<open>func(opts ...Option) (Foo, func())\<close>, whose interceptor receives the slice of the
  variadic arguments, of type \<open>[]Option\<close>.
\<close>

definition OptionsT :: rtype where
  "OptionsT = RType ''[]Option'' Slice [] [] False False False False"

definition optionsV :: rvalue where
  "optionsV = \<lparr>v_Type = OptionsT, v_Interface = Dyn OptionsT 4\<rparr>"

definition fooWithOptions :: constructor where
  "fooWithOptions =
     \<lparr>TypeOf = Some (FuncOf [OptionsT] [FooT, CleanupT] True),
      Call = (\<lambda>args. [fooV, cleanupV])\<rparr>"

text \<open>
  Three accessors. The first holds the default configuration that \<open>provideConfig\<close>
  exports and reports every other path as an error. The second holds nothing and
  reports every path as an error. The third holds nothing either, but returns nil and
  leaves the target as it was, at its zero value. Then injection parameters: without
  interceptors, and with a writer interceptor only.
\<close>

definition notFound :: "string \<Rightarrow> error" where
  "notFound path = ErrorsNew (''no configuration at '' @ path)"

definition defaultConf :: ConfigAccessor where
  "defaultConf =
     \<lparr>UnmarshalReader = (\<lambda>path. if path = ''kafka.reader.default''
          then Inr \<lparr>readerBrokers = [''127.0.0.1:9092'']\<rparr> else Inl (notFound path)),
      UnmarshalWriter = (\<lambda>path. if path = ''kafka.writer.default''
          then Inr \<lparr>writerBrokers = [''127.0.0.1:9092'']\<rparr> else Inl (notFound path)),
      UnmarshalDuration = (\<lambda>path. if path = ''kafkaMetrics.interval''
          then Inr 15 else Inl (notFound path))\<rparr>"

definition noConf :: ConfigAccessor where
  "noConf =
     \<lparr>UnmarshalReader = (\<lambda>path. Inl (notFound path)),
      UnmarshalWriter = (\<lambda>path. Inl (notFound path)),
      UnmarshalDuration = (\<lambda>path. Inl (notFound path))\<rparr>"

definition silentConf :: ConfigAccessor where
  "silentConf =
     \<lparr>UnmarshalReader = (\<lambda>path. Inr \<lparr>readerBrokers = []\<rparr>),
      UnmarshalWriter = (\<lambda>path. Inr \<lparr>writerBrokers = []\<rparr>),
      UnmarshalDuration = (\<lambda>path. Inr 0)\<rparr>"

definition plainIn :: "ConfigAccessor \<Rightarrow> factoryIn" where
  "plainIn conf =
     \<lparr>ReaderInterceptor = None, WriterInterceptor = None, Conf = conf,
      ReaderStats = None, WriterStats = None\<rparr>"

definition writerInterceptorOnly :: factoryIn where
  "writerInterceptorOnly =
     \<lparr>ReaderInterceptor = None, WriterInterceptor = Some (\<lambda>name w. w), Conf = defaultConf,
      ReaderStats = None, WriterStats = None\<rparr>"

text \<open>
  The scenario of \<open>TestC_ServeDisable\<close>: an HTTP and a gRPC module, both disabled, and
  listeners for the start and the shutdown events.
\<close>

definition httpModule :: "nat Module" where
  "httpModule = \<lparr>identity = '':8080'', disableKey = ''http.disable'', run = (\<lambda>n. (None, n))\<rparr>"

definition grpcModule :: "nat Module" where
  "grpcModule = \<lparr>identity = '':9090'', disableKey = ''grpc.disable'', run = (\<lambda>n. (None, n))\<rparr>"

definition allDisabled :: "string \<Rightarrow> bool" where
  "allDisabled key = (key = ''http.disable'' \<or> key = ''grpc.disable'' \<or> key = ''cron.disable'')"

definition lifecycleListeners :: "(lifecycle, string, nat) registry" where
  "lifecycleListeners =
     fold Subscribe
       [counting ModuleStart, counting ModuleShutdown, counting ModuleStart,
        counting ModuleShutdown] Map.empty"

section \<open>AddModule\<close>

lemma AddModule_no_error:
  "list_all (\<lambda>m. \<not> is_error m) ms \<Longrightarrow>
   AddModule ms c = (None, c\<lparr>Container := Container c @ ms\<rparr>)"
  by (induction ms arbitrary: c) (simp_all add: Container_AddModule_def)

text \<open>
  C7. \<open>AddModule(values...)\<close> goes through its arguments in order. If one of them is an
  error value, it panics with the first such value, having appended exactly the
  arguments before it and nothing after; otherwise it returns having appended every
  argument, in the order given.
\<close>

theorem AddModule_panics_on_first_error:
  "AddModule ms c =
     (case find is_error ms of
        None \<Rightarrow> (None, c\<lparr>Container := Container c @ ms\<rparr>)
      | Some e \<Rightarrow> (Some e, c\<lparr>Container := Container c @ takeWhile (\<lambda>m. \<not> is_error m) ms\<rparr>))"
  by (induction ms arbitrary: c)
    (auto simp: Container_AddModule_def split: option.splits)

section \<open>Provide and the interceptor\<close>

lemma scanOuts_eq:
  "scanOuts ts s acc =
     (s \<or> (\<exists>t\<in>set ts. isCleanup t \<or> isModule t), acc @ filter (\<lambda>t. \<not> isCleanup t) ts)"
  by (induction ts arbitrary: s acc) auto

lemma scanIns_eq:
  "scanIns ts s acc = (s \<or> (\<exists>t\<in>set ts. isModule t), acc @ ts)"
  by (induction ts arbitrary: s acc) auto

lemma filterOuts_eq:
  "filterOuts outVs c acc =
     (case AddModule (map v_Interface
             (filter (\<lambda>v. isCleanup (v_Type v) \<or> isModule (v_Type v)) outVs)) c of
        (Some p, c') \<Rightarrow> (Inl (ModuleIsError p), c')
      | (None, c') \<Rightarrow> (Inr (acc @ filter (\<lambda>v. \<not> isCleanup (v_Type v)) outVs), c'))"
  by (induction outVs arbitrary: c acc) (auto simp: Let_def split: option.splits prod.splits)

lemma Value_Call_not_variadic:
  "TypeOf k = Some ftype \<Longrightarrow> \<not> IsVariadic ftype \<Longrightarrow> Value_Call k args = Inr (Call k args)"
  by (simp add: Value_Call_def)

lemma interceptor_eq:
  "TypeOf k = Some ftype \<Longrightarrow> \<not> IsVariadic ftype \<Longrightarrow>
   interceptor k args c =
     (case AddModule (map v_Interface
             (filter (\<lambda>v. isCleanup (v_Type v) \<or> isModule (v_Type v)) (Call k args))) c of
        (Some p, c') \<Rightarrow> (Inl (ModuleIsError p), c')
      | (None, c') \<Rightarrow> (Inr (filter (\<lambda>v. \<not> isCleanup (v_Type v)) (Call k args)), c'))"
  by (simp add: interceptor_def Value_Call_not_variadic filterOuts_eq
      split: prod.splits option.splits)

lemma example_types [simp]:
  "isCleanup CleanupT" "\<not> isCleanup FooT" "\<not> isCleanup M1T"
  "isModule M1T" "\<not> isModule FooT" "\<not> isModule CleanupT"
  "\<not> implementsErr CleanupT" "\<not> implementsErr M1T" "\<not> implementsErr FooT"
  by (simp_all add: isCleanup_def isModule_def CleanupT_def FooT_def M1T_def FuncOf_def
      NumIn_def NumOut_def)

text \<open>
  C1, as the code has it. For a constructor with at least one cleanup-callback or module
  output, \<open>provide\<close> hands the resolver a function made by \<open>reflect.MakeFunc\<close>, whose
  type keeps the inputs and drops only the cleanup outputs. If the constructor is not
  variadic, that function, when invoked, calls the original constructor and registers
  every cleanup-callback output and every module output as a module, in the order of
  the outputs (\<open>AddModule\<close> panics if one of them is an error value). It forwards every
  output that is not a cleanup callback: the cleanup callbacks are withheld, the module
  outputs are forwarded as well as registered.
\<close>

theorem interceptor_registers_and_forwards:
  assumes "TypeOf k = Some ftype" and "Kind ftype = Func"
    and "\<exists>t\<in>set (outs ftype). isCleanup t \<or> isModule t"
  shows "provide Provide k c =
           diProvide Provide
             (MakeFunc (FuncOf (ins ftype) (filter (\<lambda>t. \<not> isCleanup t) (outs ftype))
                (IsVariadic ftype)) k) c
       \<and> (\<not> IsVariadic ftype \<longrightarrow>
           call_provided (MakeFunc fnType k) args c =
             (case AddModule (map v_Interface
                     (filter (\<lambda>v. isCleanup (v_Type v) \<or> isModule (v_Type v)) (Call k args))) c of
                (Some p, c') \<Rightarrow> (Inl (ModuleIsError p), c')
              | (None, c') \<Rightarrow> (Inr (filter (\<lambda>v. \<not> isCleanup (v_Type v)) (Call k args)), c')))
       \<and> (\<not> IsVariadic ftype \<and>
           list_all (\<lambda>v. \<not> is_error (v_Interface v))
             (filter (\<lambda>v. isCleanup (v_Type v) \<or> isModule (v_Type v)) (Call k args)) \<longrightarrow>
           call_provided (MakeFunc fnType k) args c =
             (Inr (filter (\<lambda>v. \<not> isCleanup (v_Type v)) (Call k args)),
              c\<lparr>Container := Container c @ map v_Interface
                   (filter (\<lambda>v. isCleanup (v_Type v) \<or> isModule (v_Type v)) (Call k args))\<rparr>))"
proof (intro conjI impI)
  from assms show "provide Provide k c =
      diProvide Provide
        (MakeFunc (FuncOf (ins ftype) (filter (\<lambda>t. \<not> isCleanup t) (outs ftype))
           (IsVariadic ftype)) k) c"
    by (auto simp: provide_def scanOuts_eq scanIns_eq)
next
  assume "\<not> IsVariadic ftype"
  with assms(1) show "call_provided (MakeFunc fnType k) args c =
      (case AddModule (map v_Interface
              (filter (\<lambda>v. isCleanup (v_Type v) \<or> isModule (v_Type v)) (Call k args))) c of
         (Some p, c') \<Rightarrow> (Inl (ModuleIsError p), c')
       | (None, c') \<Rightarrow> (Inr (filter (\<lambda>v. \<not> isCleanup (v_Type v)) (Call k args)), c'))"
    by (simp add: interceptor_eq)
next
  assume a: "\<not> IsVariadic ftype \<and>
      list_all (\<lambda>v. \<not> is_error (v_Interface v))
        (filter (\<lambda>v. isCleanup (v_Type v) \<or> isModule (v_Type v)) (Call k args))"
  then have "list_all (\<lambda>m. \<not> is_error m) (map v_Interface
      (filter (\<lambda>v. isCleanup (v_Type v) \<or> isModule (v_Type v)) (Call k args)))"
    by (simp add: list_all_iff)
  from AddModule_no_error [OF this, of c] a assms(1)
  show "call_provided (MakeFunc fnType k) args c =
      (Inr (filter (\<lambda>v. \<not> isCleanup (v_Type v)) (Call k args)),
       c\<lparr>Container := Container c @ map v_Interface
            (filter (\<lambda>v. isCleanup (v_Type v) \<or> isModule (v_Type v)) (Call k args))\<rparr>)"
    by (simp add: interceptor_eq)
qed

theorem interceptor_registers_and_forwards_witness:
  "provide keepProvided fooCleanupModule emptyC =
     (None, emptyC\<lparr>di := [MakeFunc (FuncOf [] [FooT, M1T] False) fooCleanupModule]\<rparr>)
   \<and> call_provided (MakeFunc (FuncOf [] [FooT, M1T] False) fooCleanupModule) [] emptyC =
     (Inr [fooV, m1V], emptyC\<lparr>Container := [Dyn CleanupT 2, Dyn M1T 3]\<rparr>)"
  using interceptor_registers_and_forwards
    [of fooCleanupModule "FuncOf [] [FooT, CleanupT, M1T] False" keepProvided emptyC
      "FuncOf [] [FooT, M1T] False" "[]"]
  by (simp add: fooCleanupModule_def FuncOf_def diProvide_def keepProvided_def emptyC_def
      fooV_def cleanupV_def m1V_def Container_AddModule_def)

text \<open>
  The constructor \<open>func() (Foo, func(), m1)\<close>: the value of type \<open>m1\<close>, a module, is among
  the outputs its interceptor forwards.
\<close>

theorem interceptor_forwards_module_counterexample:
  "fst (interceptor fooCleanupModule [] emptyC) = Inr [fooV, m1V] \<and> isModule (v_Type m1V)"
  by (simp add: interceptor_def Value_Call_def fooCleanupModule_def FuncOf_def emptyC_def
      fooV_def cleanupV_def m1V_def Container_AddModule_def)

text \<open>
  For a variadic constructor the interceptor hands the slice of the variadic arguments
  to \<open>Call\<close> as one argument. Unless the slice's type is assignable to its own element
  type, \<open>Call\<close> panics: the constructor is not called and nothing is registered. So it
  is for \<open>func(opts ...Option) (Foo, func())\<close>.
\<close>

lemma interceptor_variadic_panics:
  assumes "TypeOf k = Some ftype" and "IsVariadic ftype"
    and "drop (NumIn ftype - 1) args = [x]" and "\<not> AssignableToElem (v_Type x)"
  shows "call_provided (MakeFunc fnType k) args c = (Inl (CannotUseInCall (v_Type x)), c)"
  using assms by (simp add: interceptor_def Value_Call_def)

lemma interceptor_fooWithOptions:
  "provide keepProvided fooWithOptions emptyC =
     (None, emptyC\<lparr>di := [MakeFunc (FuncOf [OptionsT] [FooT] True) fooWithOptions]\<rparr>)
   \<and> call_provided (MakeFunc (FuncOf [OptionsT] [FooT] True) fooWithOptions) [optionsV] emptyC =
     (Inl (CannotUseInCall OptionsT), emptyC)"
  by (simp add: provide_def diProvide_def keepProvided_def emptyC_def fooWithOptions_def
      FuncOf_def interceptor_def Value_Call_def NumIn_def optionsV_def OptionsT_def)

text \<open>
  C2, as the code has it. For a constructor none of whose outputs is a cleanup callback
  or a module and none of whose inputs is of a module type, \<open>provide\<close> passes the
  constructor itself to the resolver's \<open>Provide\<close> and does nothing else (it panics with
  the resolver's error, if any): the resolver is in the state it would be in without
  the interception layer, and invoking what was provided is invoking the constructor.
\<close>

theorem provide_passes_unchanged:
  assumes "TypeOf k = Some ftype" and "Kind ftype = Func"
    and "list_all (\<lambda>t. \<not> isCleanup t \<and> \<not> isModule t) (outs ftype)"
    and "list_all (\<lambda>t. \<not> isModule t) (ins ftype)"
  shows "provide Provide k c =
           (case Provide (Unchanged k) (di c) of
              (Some err, d') \<Rightarrow> (Some (ProvideError err), c\<lparr>di := d'\<rparr>)
            | (None, d') \<Rightarrow> (None, c\<lparr>di := d'\<rparr>))
       \<and> call_provided (Unchanged k) args c = (Inr (Call k args), c)"
  using assms by (auto simp: provide_def diProvide_def scanOuts_eq scanIns_eq list_all_iff)

theorem provide_passes_unchanged_witness:
  "provide keepProvided fooOnly emptyC = (None, emptyC\<lparr>di := [Unchanged fooOnly]\<rparr>)
   \<and> call_provided (Unchanged fooOnly) [] emptyC = (Inr [fooV], emptyC)"
  using provide_passes_unchanged [of fooOnly "FuncOf [] [FooT] False" keepProvided emptyC "[]"]
  by (simp add: fooOnly_def FuncOf_def keepProvided_def emptyC_def)

text \<open>
  The constructor \<open>func(m m1) Foo\<close> has no cleanup or module output, and yet what reaches
  the resolver is an interceptor: \<open>provide\<close> also sets \<open>shouldMakeFunc\<close> for an input of a
  module type.
\<close>

theorem provide_wraps_module_input_counterexample:
  "list_all (\<lambda>t. \<not> isCleanup t \<and> \<not> isModule t) [FooT]
   \<and> TypeOf fooFromModule = Some (FuncOf [M1T] [FooT] False)
   \<and> di (snd (provide keepProvided fooFromModule emptyC)) =
       [MakeFunc (FuncOf [M1T] [FooT] False) fooFromModule]"
  by (simp add: provide_def diProvide_def fooFromModule_def FuncOf_def keepProvided_def
      emptyC_def)

text \<open>
  Such an interceptor, of a constructor that is not variadic, registers nothing and
  forwards every output: it behaves as the constructor does.
\<close>

lemma module_input_interceptor_forwards_all:
  "TypeOf k = Some ftype \<Longrightarrow> \<not> IsVariadic ftype \<Longrightarrow>
   list_all (\<lambda>v. \<not> isCleanup (v_Type v) \<and> \<not> isModule (v_Type v)) (Call k args) \<Longrightarrow>
   call_provided (MakeFunc fnType k) args c = call_provided (Unchanged k) args c"
  by (simp add: interceptor_eq list_all_iff filter_id_conv cong: filter_cong)

section \<open>Invoke\<close>

text \<open>
  \<open>HasPrefix\<close> read from left to right, for evaluating it on literals.
\<close>

lemma HasPrefix_Nil: "HasPrefix s [] = True"
  by (simp add: HasPrefix_def)

lemma HasPrefix_Nil_Cons: "HasPrefix [] (p # ps) = False"
  by (simp add: HasPrefix_def)

lemma HasPrefix_Cons: "HasPrefix (c # cs) (p # ps) = (c = p \<and> HasPrefix cs ps)"
  by (auto simp: HasPrefix_def)

lemmas HasPrefix_simps = HasPrefix_Nil HasPrefix_Nil_Cons HasPrefix_Cons

text \<open>
  The expression begins with a space, so a match begins at a space; and a message that
  does not contain the literal text it begins with is left as it is.
\<close>

lemma ReplaceAllString_skip:
  "c \<noteq> CHR '' '' \<Longrightarrow> ReplaceAllString (c # cs) = c # ReplaceAllString cs"
  by (simp add: matchAt_def stubPrefix_def HasPrefix_Cons)

lemma ReplaceAllString_id: "\<not> Contains s stubPrefix \<Longrightarrow> ReplaceAllString s = s"
  by (induction s rule: ReplaceAllString.induct) (auto simp: matchAt_def)

lemmas message_defs = targetLocation_def stubLocation_def stubName_def stubPrefix_def matchAt_def

text \<open>
  The two messages of the examples, rewritten.
\<close>

lemma ReplaceAllString_oneLevelMessage:
  "ReplaceAllString oneLevelMessage =
     ''could not build arguments for function '' @ targetLocation @ '': ''
     @ ''failed to build core.a: missing type: core.b''"
  by (simp add: oneLevelMessage_def message_defs ReplaceAllString_skip HasPrefix_simps)

lemma ReplaceAllString_twoLevelMessage:
  "ReplaceAllString twoLevelMessage =
     ''could not build arguments for function '' @ targetLocation @ '': ''
     @ ''failed to build core.a: could not build arguments for function '' @ stubLocation
     @ '': failed to build core.b: missing type: core.c''"
  by (simp add: twoLevelMessage_def message_defs ReplaceAllString_skip HasPrefix_simps)

text \<open>
  C5, as the code has it. \<open>Invoke\<close> hands the function to the resolver's \<open>Invoke\<close> and has
  no result of its own. If the resolver returns no error, \<open>Invoke\<close> returns. If it
  returns an error, the target function's error result included, \<open>Invoke\<close> panics with
  a new error made by \<open>errors.New\<close> from the message of that error with every match of
  the stub expression removed; for a message that does not contain the text
  \<^verbatim>\<open> missing dependencies for function "reflect".makeFuncStub (\<close> that is the
  message itself.
\<close>

theorem Invoke_panics_with_rewritten_error:
  "(diInvoke function c = (None, c') \<longrightarrow> Invoke diInvoke function c = (Returned, c'))
   \<and> (diInvoke function c = (Some err, c') \<longrightarrow>
        Invoke diInvoke function c = (Panicked (ErrorsNew (ReplaceAllString (Error err))), c')
        \<and> (\<not> Contains (Error err) stubPrefix \<longrightarrow>
             Invoke diInvoke function c = (Panicked (ErrorsNew (Error err)), c')))"
  by (simp add: Invoke_def ReplaceAllString_id)

theorem Invoke_panics_with_rewritten_error_witness:
  "Invoke callTarget None emptyC = (Returned, emptyC)
   \<and> Invoke callTarget (Some boom) emptyC = (Panicked (ErrorsNew ''boom''), emptyC)"
  using Invoke_panics_with_rewritten_error [of callTarget None emptyC emptyC boom]
    Invoke_panics_with_rewritten_error [of callTarget "Some boom" emptyC emptyC boom]
  by (simp add: callTarget_def boom_def stubPrefix_def matchAt_def HasPrefix_simps)

text \<open>
  A function without parameters that returns the error \<open>boom\<close>: \<open>Invoke\<close> does not
  return, and what it panics with is not \<open>boom\<close> but a new error with the same
  message.
\<close>

theorem Invoke_returns_no_error_counterexample:
  "fst (Invoke callTarget (Some boom) emptyC) \<noteq> Returned
   \<and> fst (Invoke callTarget (Some boom) emptyC) \<noteq> Panicked boom"
  by (simp add: Invoke_def callTarget_def boom_def)

text \<open>
  C6. With two wrapped constructors in a chain and the dependency of the second missing,
  the resolver's message names the reflection stub twice: once after "could not build
  arguments for function", once after "missing dependencies for function". The
  expression matches the second only, and the error \<open>Invoke\<close> panics with still
  contains \<^verbatim>\<open>"reflect".makeFuncStub\<close>.
\<close>

theorem Invoke_leaves_stub_in_message:
  "fst (Invoke (failWith twoLevelMessage) () emptyC) =
     Panicked (ErrorsNew
       (''could not build arguments for function '' @ targetLocation @ '': ''
        @ ''failed to build core.a: could not build arguments for function '' @ stubLocation
        @ '': failed to build core.b: missing type: core.c''))
   \<and> Contains
       (''could not build arguments for function '' @ targetLocation @ '': ''
        @ ''failed to build core.a: could not build arguments for function '' @ stubLocation
        @ '': failed to build core.b: missing type: core.c'') stubName"
proof
  show "fst (Invoke (failWith twoLevelMessage) () emptyC) =
     Panicked (ErrorsNew
       (''could not build arguments for function '' @ targetLocation @ '': ''
        @ ''failed to build core.a: could not build arguments for function '' @ stubLocation
        @ '': failed to build core.b: missing type: core.c''))"
    by (simp add: Invoke_def failWith_def ReplaceAllString_twoLevelMessage)
next
  show "Contains
       (''could not build arguments for function '' @ targetLocation @ '': ''
        @ ''failed to build core.a: could not build arguments for function '' @ stubLocation
        @ '': failed to build core.b: missing type: core.c'') stubName"
    by (simp add: targetLocation_def stubLocation_def stubName_def HasPrefix_simps)
qed

text \<open>
  With one wrapped constructor, the case of the test, the stub is removed and the
  missing type is still named.
\<close>

lemma Invoke_oneLevelMessage:
  "fst (Invoke (failWith oneLevelMessage) () emptyC) =
     Panicked (ErrorsNew
       (''could not build arguments for function '' @ targetLocation @ '': ''
        @ ''failed to build core.a: missing type: core.b''))
   \<and> \<not> Contains
       (''could not build arguments for function '' @ targetLocation @ '': ''
        @ ''failed to build core.a: missing type: core.b'') stubName
   \<and> Contains
       (''could not build arguments for function '' @ targetLocation @ '': ''
        @ ''failed to build core.a: missing type: core.b'') ''missing type: core.b''"
  by (simp add: Invoke_def failWith_def ReplaceAllString_oneLevelMessage targetLocation_def
      stubName_def HasPrefix_simps)

section \<open>SyncDispatcher\<close>

text \<open>
  After a run of \<open>Subscribe\<close> calls the registry holds, for each topic, the listeners of
  that topic in the order of the calls.
\<close>

lemma Subscribe_all:
  "fold Subscribe subs reg topic =
     (let ls = filter (\<lambda>l. Listen l = topic) subs in
      if ls = [] then reg topic
      else Some ((case reg topic of None \<Rightarrow> [] | Some xs \<Rightarrow> xs) @ ls))"
  by (induction subs arbitrary: reg) (auto simp: Subscribe_def Let_def split: option.splits)

text \<open>
  The loop calls the listeners in order and stops behind the first that returns an
  error.
\<close>

lemma processAll_calls:
  "processAll ls ev s = (r, s', calls) \<Longrightarrow>
     (case r of
        None \<Rightarrow> map fst calls = ls \<and> list_all (\<lambda>c. snd c = None) calls
      | Some e \<Rightarrow> (\<exists>n. n < length ls \<and> map fst calls = take (Suc n) ls
                        \<and> map snd calls = replicate n None @ [Some e]))"
proof (induction ls arbitrary: s r s' calls)
  case Nil
  then show ?case by simp
next
  case (Cons l ls)
  show ?case
  proof (cases "Process l ev s")
    case (Pair a s1)
    show ?thesis
    proof (cases a)
      case None
      obtain r2 s2 c2 where p: "processAll ls ev s1 = (r2, s2, c2)"
        by (cases "processAll ls ev s1") auto
      from Cons.IH [OF p] Cons.prems Pair None p
      show ?thesis
        by (auto split: option.splits)
    next
      case (Some e)
      with Cons.prems Pair show ?thesis
        by (auto intro!: exI [of _ 0])
    qed
  qed
qed

text \<open>
  C4. After the listeners \<open>subs\<close> have subscribed, in this order, to a fresh dispatcher,
  \<open>Dispatch\<close> for a topic calls listeners of that topic only, in the order of their
  subscription. If it returns nil, it has called every one of them (none, if the topic
  has no listener) and each returned nil. If it returns an error, that is the error of
  the last listener it called, every listener before returned nil, and no later
  listener was called.
\<close>

theorem Dispatch_invokes_subscribers_in_order:
  assumes "Dispatch (fold Subscribe subs Map.empty) topic event s = (r, s', calls)"
  shows "case r of
           None \<Rightarrow> map fst calls = filter (\<lambda>l. Listen l = topic) subs
                    \<and> list_all (\<lambda>c. snd c = None) calls
         | Some e \<Rightarrow>
             (\<exists>n. n < length (filter (\<lambda>l. Listen l = topic) subs)
                \<and> map fst calls = take (Suc n) (filter (\<lambda>l. Listen l = topic) subs)
                \<and> map snd calls = replicate n None @ [Some e])"
proof (cases "filter (\<lambda>l. Listen l = topic) subs = []")
  case True
  then have "fold Subscribe subs Map.empty topic = None"
    by (simp add: Subscribe_all)
  with assms True show ?thesis
    by (simp add: Dispatch_def)
next
  case False
  then have "fold Subscribe subs Map.empty topic = Some (filter (\<lambda>l. Listen l = topic) subs)"
    by (simp add: Subscribe_all)
  with assms have "processAll (filter (\<lambda>l. Listen l = topic) subs) event s = (r, s', calls)"
    by (simp add: Dispatch_def)
  then show ?thesis by (rule processAll_calls)
qed

theorem Dispatch_invokes_subscribers_in_order_witness:
  "Dispatch (fold Subscribe [counting ''a'', counting ''b'', failing ''a'', counting ''a''] Map.empty)
       ''a'' ''payload'' 0
     = (Some boom, 2, [(counting ''a'', None), (failing ''a'', Some boom)])
   \<and> Dispatch (fold Subscribe [counting ''a'', counting ''b'', failing ''a'', counting ''a''] Map.empty)
       ''b'' ''payload'' 0
     = (None, 1, [(counting ''b'', None)])
   \<and> Dispatch (fold Subscribe [counting ''a'', counting ''b'', failing ''a'', counting ''a''] Map.empty)
       ''c'' ''payload'' 0
     = (None, 0, [])"
  using Dispatch_invokes_subscribers_in_order
    [of "[counting ''a'', counting ''b'', failing ''a'', counting ''a'']" "''a''" "''payload''" 0
      "Some boom" 2 "[(counting ''a'', None), (failing ''a'', Some boom)]"]
  by (simp add: Dispatch_def Subscribe_def counting_def failing_def)

section \<open>Make: caching\<close>

text \<open>
  A cached name is answered from the cache, and no \<open>Make\<close> removes an entry or calls the
  builder for a cached name.
\<close>

lemma Make_cached: "cache f n = Some p \<Longrightarrow> Make builder n f = (Ok p, f)"
  by (simp add: Make_def)

lemma Make_keeps_entry:
  "cache f n = Some p \<Longrightarrow> cache (snd (Make builder m f)) n = Some p"
  by (cases "m = n") (auto simp: Make_def split: option.splits result.splits)

lemma Make_keeps_count:
  "cache f n = Some p \<Longrightarrow>
   count_list (built (snd (Make builder m f))) n = count_list (built f) n"
  by (cases "m = n") (auto simp: Make_def split: option.splits result.splits)

lemma Makes_keeps_entry:
  "cache f n = Some p \<Longrightarrow>
   cache (Makes calls f) n = Some p \<and> count_list (built (Makes calls f)) n = count_list (built f) n"
proof (induction calls arbitrary: f)
  case Nil
  then show ?case by simp
next
  case (Cons call calls)
  obtain builder m where call: "call = (builder, m)" by (cases call)
  from Cons.prems have "cache (snd (Make builder m f)) n = Some p"
    by (rule Make_keeps_entry)
  from Cons.IH [OF this] Make_keeps_count [OF Cons.prems, of builder m] call
  show ?case by simp
qed

text \<open>
  C3. Let \<open>n\<close> be a name that is not cached. If the builder succeeds on the first
  \<open>Make(n)\<close>, then after any further \<open>Make\<close> calls a \<open>Make(n)\<close> returns the instance
  built first and leaves the factory as it is, and the builder has been invoked for
  \<open>n\<close> once in all. If the builder fails, \<open>Make(n)\<close> returns its error and caches
  nothing, and the next \<open>Make(n)\<close> invokes the builder again and returns what it
  gives.
\<close>

theorem Make_caches_success_only:
  assumes "cache f n = None"
  shows "(builder n = Ok p \<longrightarrow>
            fst (Make builder n f) = Ok p
          \<and> Make builder' n (Makes calls (snd (Make builder n f)))
              = (Ok p, Makes calls (snd (Make builder n f)))
          \<and> count_list (built (Makes calls (snd (Make builder n f)))) n
              = Suc (count_list (built f) n))
       \<and> (builder n = Err e \<longrightarrow>
            Make builder n f = (Err e, f\<lparr>built := built f @ [n]\<rparr>)
          \<and> cache (snd (Make builder n f)) = cache f
          \<and> fst (Make builder' n (snd (Make builder n f))) = builder' n
          \<and> built (snd (Make builder' n (snd (Make builder n f)))) = built f @ [n, n])"
proof (intro conjI impI)
  assume ok: "builder n = Ok p"
  with assms have first: "Make builder n f =
      (Ok p, f\<lparr>cache := (cache f)(n \<mapsto> p), built := built f @ [n]\<rparr>)"
    by (simp add: Make_def)
  then show "fst (Make builder n f) = Ok p" by simp
  from first have entry: "cache (snd (Make builder n f)) n = Some p" by simp
  from Makes_keeps_entry [OF entry, of calls]
  have later: "cache (Makes calls (snd (Make builder n f))) n = Some p"
    and count: "count_list (built (Makes calls (snd (Make builder n f)))) n
                  = count_list (built (snd (Make builder n f))) n"
    by simp_all
  from later show "Make builder' n (Makes calls (snd (Make builder n f)))
      = (Ok p, Makes calls (snd (Make builder n f)))"
    by (rule Make_cached)
  from count first show "count_list (built (Makes calls (snd (Make builder n f)))) n
      = Suc (count_list (built f) n)"
    by simp
next
  assume err: "builder n = Err e"
  with assms show "Make builder n f = (Err e, f\<lparr>built := built f @ [n]\<rparr>)"
    by (simp add: Make_def)
  from err assms show "cache (snd (Make builder n f)) = cache f"
    by (simp add: Make_def)
  from err assms show "fst (Make builder' n (snd (Make builder n f))) = builder' n"
    by (simp add: Make_def split: result.splits)
  from err assms show "built (snd (Make builder' n (snd (Make builder n f)))) = built f @ [n, n]"
    by (simp add: Make_def split: result.splits)
qed

text \<open>
  What the accessors of the examples return at the paths of the examples.
\<close>

lemma example_paths [simp]:
  "UnmarshalReader defaultConf ''kafka.reader.default'' = Inr \<lparr>readerBrokers = [''127.0.0.1:9092'']\<rparr>"
  "UnmarshalWriter defaultConf ''kafka.writer.default'' = Inr \<lparr>writerBrokers = [''127.0.0.1:9092'']\<rparr>"
  "UnmarshalReader defaultConf ''kafka.reader.other'' = Inl (notFound ''kafka.reader.other'')"
  "UnmarshalReader noConf path = Inl (notFound path)"
  "UnmarshalWriter noConf path = Inl (notFound path)"
  "UnmarshalWriter silentConf path = Inr \<lparr>writerBrokers = []\<rparr>"
  by (simp_all add: defaultConf_def noConf_def silentConf_def)

theorem Make_caches_success_only_witness:
  "Make (readerBuilder (plainIn noConf)) ''default''
       (Makes [(readerBuilder (plainIn defaultConf), ''other'')]
          (snd (Make (readerBuilder (plainIn defaultConf)) ''default'' NewFactory)))
     = (Ok \<lparr>Conn = Reader \<lparr>readerBrokers = [''127.0.0.1:9092'']\<rparr>,
            Closer = Reader \<lparr>readerBrokers = [''127.0.0.1:9092'']\<rparr>\<rparr>,
        Makes [(readerBuilder (plainIn defaultConf), ''other'')]
          (snd (Make (readerBuilder (plainIn defaultConf)) ''default'' NewFactory)))
   \<and> built (Makes [(readerBuilder (plainIn defaultConf), ''other'')]
          (snd (Make (readerBuilder (plainIn defaultConf)) ''default'' NewFactory)))
     = [''default'', ''other'']
   \<and> cache (snd (Make (readerBuilder (plainIn noConf)) ''default'' NewFactory)) = Map.empty
   \<and> built (snd (Make (readerBuilder (plainIn defaultConf)) ''default''
        (snd (Make (readerBuilder (plainIn noConf)) ''default'' NewFactory))))
     = [''default'', ''default'']"
  using Make_caches_success_only [of NewFactory "''default''"
      "readerBuilder (plainIn defaultConf)"
      "\<lparr>Conn = Reader \<lparr>readerBrokers = [''127.0.0.1:9092'']\<rparr>,
        Closer = Reader \<lparr>readerBrokers = [''127.0.0.1:9092'']\<rparr>\<rparr>"
      "readerBuilder (plainIn noConf)"
      "[(readerBuilder (plainIn defaultConf), ''other'')]"]
    Make_caches_success_only [of NewFactory "''default''"
      "readerBuilder (plainIn noConf)" _ "readerBuilder (plainIn defaultConf)" _
      "Errorf (''kafka reader configuration default not valid: ''
               @ Error (notFound ''kafka.reader.default''))
         (notFound ''kafka.reader.default'')"]
  by (simp add: NewFactory_def Make_def readerBuilder_def plainIn_def)

section \<open>The Kafka builders and provider\<close>

text \<open>
  C9, as the code has it. The builder of \<open>provideWriterFactory\<close> has no test of its own
  for an absent or malformed path: it fails exactly when \<open>Conf.Unmarshal\<close> at
  \<open>kafka.writer.<name>\<close> returns an error. It then returns no connection but an error
  whose message is "kafka writer configuration <name> not valid: " followed by the
  message of that error, which it wraps; \<open>Make(name)\<close> on a new factory returns this
  error and caches nothing; and once \<open>Unmarshal\<close> reads a writer configuration at the
  path, \<open>Make(name)\<close> on the same factory succeeds with a writer made from it.
\<close>

theorem writerBuilder_fails_when_Unmarshal_fails:
  "((\<exists>e. writerBuilder p name = Err e) \<longleftrightarrow>
      (\<exists>cause. UnmarshalWriter (Conf p) (''kafka.writer.'' @ name) = Inl cause))
   \<and> (UnmarshalWriter (Conf p) (''kafka.writer.'' @ name) = Inl cause \<longrightarrow>
        writerBuilder p name =
          Err (Errorf (''kafka writer configuration '' @ name @ '' not valid: '' @ Error cause)
                 cause)
      \<and> Make (writerBuilder p) name NewFactory =
          (Err (Errorf (''kafka writer configuration '' @ name @ '' not valid: '' @ Error cause)
                 cause),
           NewFactory\<lparr>built := [name]\<rparr>)
      \<and> (UnmarshalWriter (Conf p') (''kafka.writer.'' @ name) = Inr w \<longrightarrow>
           fst (Make (writerBuilder p') name (snd (Make (writerBuilder p) name NewFactory)))
             = Ok \<lparr>Conn = Writer (case WriterInterceptor p' of None \<Rightarrow> w | Some f \<Rightarrow> f name w),
                   Closer = Writer (case WriterInterceptor p' of None \<Rightarrow> w | Some f \<Rightarrow> f name w)\<rparr>))"
proof (intro conjI impI)
  show "(\<exists>e. writerBuilder p name = Err e) \<longleftrightarrow>
      (\<exists>cause. UnmarshalWriter (Conf p) (''kafka.writer.'' @ name) = Inl cause)"
    by (auto simp: writerBuilder_def split: sum.splits option.splits)
next
  assume u: "UnmarshalWriter (Conf p) (''kafka.writer.'' @ name) = Inl cause"
  then show b: "writerBuilder p name =
      Err (Errorf (''kafka writer configuration '' @ name @ '' not valid: '' @ Error cause)
             cause)"
    by (simp add: writerBuilder_def)
  then show m: "Make (writerBuilder p) name NewFactory =
      (Err (Errorf (''kafka writer configuration '' @ name @ '' not valid: '' @ Error cause)
             cause),
       NewFactory\<lparr>built := [name]\<rparr>)"
    by (simp add: Make_def NewFactory_def)
  assume "UnmarshalWriter (Conf p') (''kafka.writer.'' @ name) = Inr w"
  with m show "fst (Make (writerBuilder p') name (snd (Make (writerBuilder p) name NewFactory)))
      = Ok \<lparr>Conn = Writer (case WriterInterceptor p' of None \<Rightarrow> w | Some f \<Rightarrow> f name w),
            Closer = Writer (case WriterInterceptor p' of None \<Rightarrow> w | Some f \<Rightarrow> f name w)\<rparr>"
    by (simp add: Make_def NewFactory_def writerBuilder_def split: option.splits)
qed

theorem writerBuilder_fails_when_Unmarshal_fails_witness:
  "Make (writerBuilder (plainIn noConf)) ''default'' NewFactory =
     (Err (Errorf (''kafka writer configuration default not valid: ''
                   @ ''no configuration at kafka.writer.default'')
             (notFound ''kafka.writer.default'')),
      NewFactory\<lparr>built := [''default'']\<rparr>)
   \<and> fst (Make (writerBuilder (plainIn defaultConf)) ''default''
          (snd (Make (writerBuilder (plainIn noConf)) ''default'' NewFactory)))
     = Ok \<lparr>Conn = Writer \<lparr>writerBrokers = [''127.0.0.1:9092'']\<rparr>,
           Closer = Writer \<lparr>writerBrokers = [''127.0.0.1:9092'']\<rparr>\<rparr>"
  using writerBuilder_fails_when_Unmarshal_fails
    [of "plainIn noConf" "''default''" "notFound ''kafka.writer.default''" "plainIn defaultConf"
      "\<lparr>writerBrokers = [''127.0.0.1:9092'']\<rparr>"]
  by (simp add: NewFactory_def Make_def writerBuilder_def plainIn_def notFound_def)

text \<open>
  An accessor that holds nothing at \<open>kafka.writer.default\<close> and whose \<open>Unmarshal\<close>
  returns nil for an absent path, leaving the target at its zero value: the path is
  absent, and the builder and \<open>Make("default")\<close> succeed, with a writer that has no
  brokers.
\<close>

theorem writerBuilder_absent_path_counterexample:
  "writerBuilder (plainIn silentConf) ''default'' =
     Ok \<lparr>Conn = Writer \<lparr>writerBrokers = []\<rparr>, Closer = Writer \<lparr>writerBrokers = []\<rparr>\<rparr>
   \<and> fst (Make (writerBuilder (plainIn silentConf)) ''default'' NewFactory) =
     Ok \<lparr>Conn = Writer \<lparr>writerBrokers = []\<rparr>, Closer = Writer \<lparr>writerBrokers = []\<rparr>\<rparr>"
  by (simp add: NewFactory_def Make_def writerBuilder_def plainIn_def)

text \<open>
  C10. With a writer interceptor, no reader interceptor and the default configuration,
  the eager \<open>Make("default")\<close> of the reader calls the nil \<open>ReaderInterceptor\<close>:
  \<open>provideKafkaFactory\<close> panics and returns nothing.
\<close>

theorem provideKafkaFactory_panics_on_nil_reader_interceptor:
  "provideKafkaFactory writerInterceptorOnly = Inl nilCall"
  by (simp add: provideKafkaFactory_def provideReaderFactory_def provideWriterFactory_def
      MakeConn_def Make_def NewFactory_def readerBuilder_def writerInterceptorOnly_def)

text \<open>
  On every other input \<open>provideKafkaFactory\<close> returns, and whenever it returns the error
  is nil, whatever the two \<open>Make("default")\<close> calls gave: their errors are logged as
  warnings, and the reader and the writer injected are then nil.
\<close>

lemma MakeConn_cases:
  "MakeConn builder name NewFactory =
     (case builder name of
        Ok p \<Rightarrow> (Inr (Some (Conn p), None),
                  NewFactory\<lparr>cache := [name \<mapsto> p], built := [name]\<rparr>)
      | Err e \<Rightarrow> (Inr (None, Some e), NewFactory\<lparr>built := [name]\<rparr>)
      | Panic m \<Rightarrow> (Inl m, NewFactory\<lparr>built := [name]\<rparr>))"
  by (simp add: MakeConn_def Make_def NewFactory_def split: result.splits)

lemma writerBuilder_no_panic: "writerBuilder p name \<noteq> Panic m"
  by (simp add: writerBuilder_def split: sum.splits option.splits)

lemma readerBuilder_panics_iff:
  "(\<exists>m. readerBuilder p name = Panic m) \<longleftrightarrow>
     WriterInterceptor p \<noteq> None \<and> ReaderInterceptor p = None
     \<and> (\<exists>r. UnmarshalReader (Conf p) (''kafka.reader.'' @ name) = Inr r)"
  by (auto simp: readerBuilder_def split: sum.splits option.splits)

lemma provideKafkaFactory_nil_error:
  "provideKafkaFactory p = Inr ((out, c1, c2, err), log) \<Longrightarrow>
     err = None \<and> c1 = CloseWriterFactory \<and> c2 = CloseReaderFactory"
  by (auto simp: provideKafkaFactory_def provideReaderFactory_def provideWriterFactory_def
      MakeConn_cases Let_def split: prod.splits sum.splits result.splits)

lemma provideKafkaFactory_returns:
  assumes "\<not> (WriterInterceptor p \<noteq> None \<and> ReaderInterceptor p = None
            \<and> (\<exists>r. UnmarshalReader (Conf p) ''kafka.reader.default'' = Inr r))"
  shows "\<exists>out log. provideKafkaFactory p =
           Inr ((out, CloseWriterFactory, CloseReaderFactory, None), log)"
proof -
  from assms readerBuilder_panics_iff [of p "''default''"]
  have r: "readerBuilder p ''default'' \<noteq> Panic m" for m by auto
  show ?thesis
    using r writerBuilder_no_panic [of p "''default''"]
    by (auto simp: provideKafkaFactory_def provideReaderFactory_def provideWriterFactory_def
        MakeConn_cases Let_def split: prod.splits sum.splits result.splits)
qed

lemma provideKafkaFactory_swallows_errors:
  "\<exists>out e1 e2. provideKafkaFactory (plainIn noConf) =
       Inr ((out, CloseWriterFactory, CloseReaderFactory, None), [Warn e1, Warn e2])
     \<and> DefaultReader out = None \<and> DefaultWriter out = None"
  by (simp add: provideKafkaFactory_def provideReaderFactory_def provideWriterFactory_def
      MakeConn_cases readerBuilder_def writerBuilder_def plainIn_def collectors_def warn_def)

section \<open>Serve and disabled modules\<close>

text \<open>
  The events published are the start and the shutdown of each module that is not
  disabled, in registration order.
\<close>

lemma Serve_published:
  "fst (snd (snd (Serve disable registry ms s))) =
     concat (map (\<lambda>m. [(ModuleStart, identity m), (ModuleShutdown, identity m)])
       (filter (\<lambda>m. \<not> disable (disableKey m)) ms))"
proof (induction ms arbitrary: s)
  case Nil
  show ?case by simp
next
  case (Cons m ms)
  show ?case
  proof (cases "disable (disableKey m)")
    case True
    then show ?thesis using Cons.IH by simp
  next
    case False
    obtain e1 s1 c1 where d1: "Dispatch registry ModuleStart (identity m) s = (e1, s1, c1)"
      by (metis prod_cases3)
    obtain r s2 where rn: "run m s1 = (r, s2)"
      by (cases "run m s1")
    obtain e2 s3 c2 where d2: "Dispatch registry ModuleShutdown (identity m) s2 = (e2, s3, c2)"
      by (metis prod_cases3)
    obtain r' s4 pub calls where sv: "Serve disable registry ms s3 = (r', s4, pub, calls)"
      by (metis prod_cases4)
    from Cons.IH [of s3] sv have "pub =
        concat (map (\<lambda>m. [(ModuleStart, identity m), (ModuleShutdown, identity m)])
          (filter (\<lambda>m. \<not> disable (disableKey m)) ms))"
      by simp
    with False d1 rn d2 sv show ?thesis by simp
  qed
qed

text \<open>
  C8. \<open>Serve\<close> does for the registered modules what it does for those of them that are
  not disabled: a disabled module is not run, no event is published for it and no
  listener is called on its account. If every module is disabled, \<open>Serve\<close> returns nil,
  having published nothing and called no listener.
\<close>

theorem Serve_skips_disabled:
  "Serve disable registry ms s =
     Serve disable registry (filter (\<lambda>m. \<not> disable (disableKey m)) ms) s
   \<and> (list_all (\<lambda>m. disable (disableKey m)) ms \<longrightarrow>
        Serve disable registry ms s = (None, s, [], []))
   \<and> fst (snd (snd (Serve disable registry ms s))) =
       concat (map (\<lambda>m. [(ModuleStart, identity m), (ModuleShutdown, identity m)])
         (filter (\<lambda>m. \<not> disable (disableKey m)) ms))"
proof (intro conjI)
  show "Serve disable registry ms s =
      Serve disable registry (filter (\<lambda>m. \<not> disable (disableKey m)) ms) s"
    by (induction ms arbitrary: s) (auto split: prod.splits)
  show "list_all (\<lambda>m. disable (disableKey m)) ms \<longrightarrow>
      Serve disable registry ms s = (None, s, [], [])"
    by (induction ms arbitrary: s) auto
  show "fst (snd (snd (Serve disable registry ms s))) =
      concat (map (\<lambda>m. [(ModuleStart, identity m), (ModuleShutdown, identity m)])
        (filter (\<lambda>m. \<not> disable (disableKey m)) ms))"
    by (rule Serve_published)
qed

theorem Serve_skips_disabled_witness:
  "Serve allDisabled lifecycleListeners [httpModule, grpcModule] 0 = (None, 0, [], [])"
  using Serve_skips_disabled [of allDisabled lifecycleListeners "[httpModule, grpcModule]" 0]
  by (simp add: allDisabled_def httpModule_def grpcModule_def)

end
